theory Spec2Isabelle
  imports Main
begin

section \<open>The dexgo client: data model\<close>

text \<open>
  The package is one Go file, \<^verbatim>\<open>dexcom.go\<close>. Strings are byte strings (\<open>string\<close>),
  Go's \<^verbatim>\<open>int\<close> is taken at its 64-bit size, a nil-able \<^verbatim>\<open>*string\<close> field is a
  \<open>string option\<close>, and a Go \<^verbatim>\<open>error\<close> return is an \<open>error option\<close> next to the value,
  as the source returns the pair. A run-time panic (nil dereference, index out of range) is
  the outcome \<open>Panic\<close>.
\<close>

datatype error =
    Errorf string          \<comment> \<open>\<^verbatim>\<open>fmt.Errorf\<close>, with the formatted message\<close>
  | ErrSyntax string       \<comment> \<open>\<^verbatim>\<open>strconv.ErrSyntax\<close> for the given input\<close>
  | ErrRange string        \<comment> \<open>\<^verbatim>\<open>strconv.ErrRange\<close> for the given input\<close>
  | TransportError string  \<comment> \<open>\<^verbatim>\<open>http.Post\<close> or \<^verbatim>\<open>io.ReadAll\<close> failed\<close>
  | DecodeError string     \<comment> \<open>\<^verbatim>\<open>json.Unmarshal\<close> failed\<close>

datatype 'a outcome = Panic | Returned 'a

definition dexcomLoginEndpoint :: string where
  "dexcomLoginEndpoint = ''General/LoginPublisherAccountById''"

definition dexcomAuthEndpoint :: string where
  "dexcomAuthEndpoint = ''General/AuthenticatePublisherAccount''"

definition dexcomGetLatestEndpoint :: string where
  "dexcomGetLatestEndpoint = ''Publisher/ReadPublisherLatestGlucoseValues''"

definition dexcomApplicationId :: string where
  "dexcomApplicationId = ''d89443d2-327c-4a6f-89e5-496bbb0317db''"

subsection \<open>Instants\<close>

text \<open>
  A \<^verbatim>\<open>time.Time\<close> is kept as the instant it denotes: whole seconds since the Unix epoch
  and nanoseconds within the second. \<^verbatim>\<open>time.Time{}\<close> is January 1 of year 1, 00:00:00 UTC.
\<close>

record Time =
  unixSec :: int
  nsec :: int

definition zeroTime :: Time where
  "zeroTime = \<lparr>unixSec = - 62135596800, nsec = 0\<rparr>"

text \<open>Go's \<^verbatim>\<open>/\<close> and \<^verbatim>\<open>%\<close> on integers truncate towards zero.\<close>

definition go_quot :: "int \<Rightarrow> int \<Rightarrow> int" where
  "go_quot a b = sgn a * sgn b * (\<bar>a\<bar> div \<bar>b\<bar>)"

definition go_rem :: "int \<Rightarrow> int \<Rightarrow> int" where
  "go_rem a b = sgn a * (\<bar>a\<bar> mod \<bar>b\<bar>)"

text \<open>\<^verbatim>\<open>time.Unix(sec, nsec)\<close>: nanoseconds outside \<open>[0, 1e9)\<close> are carried into the seconds.\<close>

definition Unix :: "int \<Rightarrow> int \<Rightarrow> Time" where
  "Unix sec ns =
     (if ns < 0 \<or> ns \<ge> 1000000000 then
        (let n = go_quot ns 1000000000;
             sec1 = sec + n;
             ns1 = ns - n * 1000000000
         in if ns1 < 0 then \<lparr>unixSec = sec1 - 1, nsec = ns1 + 1000000000\<rparr>
            else \<lparr>unixSec = sec1, nsec = ns1\<rparr>)
      else \<lparr>unixSec = sec, nsec = ns\<rparr>)"

text \<open>\<^verbatim>\<open>time.UnixMilli(msec) = Unix(msec/1e3, (msec%1e3)*1e6)\<close>.\<close>

definition UnixMilli :: "int \<Rightarrow> Time" where
  "UnixMilli msec = Unix (go_quot msec 1000) (go_rem msec 1000 * 1000000)"

text \<open>The instant of a time as nanoseconds since the Unix epoch.\<close>

definition unixNano :: "Time \<Rightarrow> int" where
  "unixNano t = unixSec t * 1000000000 + nsec t"

text \<open>
  The instant written \<open>Y-M-DTh:m:sZ\<close> (proleptic Gregorian calendar, UTC), used to read
  the calendar dates of the specification: days since 1970-01-01 by the usual era
  computation, then seconds.
\<close>

definition days_from_civil :: "int \<Rightarrow> int \<Rightarrow> int \<Rightarrow> int" where
  "days_from_civil y m d =
     (let y1 = (if m \<le> 2 then y - 1 else y);
          era = y1 div 400;
          yoe = y1 - era * 400;
          doy = (153 * (if m > 2 then m - 3 else m + 9) + 2) div 5 + d - 1;
          doe = yoe * 365 + yoe div 4 - yoe div 100 + doy
      in era * 146097 + doe - 719468)"

definition utc :: "int \<Rightarrow> int \<Rightarrow> int \<Rightarrow> int \<Rightarrow> int \<Rightarrow> int \<Rightarrow> Time" where
  "utc y m d hh mm ss =
     \<lparr>unixSec = days_from_civil y m d * 86400 + hh * 3600 + mm * 60 + ss, nsec = 0\<rparr>"

subsection \<open>The timestamp pattern\<close>

text \<open>
  \<^verbatim>\<open>var timestampRegex = regexp.MustCompile(`Date\((\d*)\)`)\<close>. In Go's syntax \<^verbatim>\<open>\d\<close> is the
  ASCII digits. The pattern is the literal \<^verbatim>\<open>Date(\<close>, a greedy run of digits (the capture
  group) and the literal \<^verbatim>\<open>)\<close>. Since \<^verbatim>\<open>)\<close> is not a digit, the pattern matches at a
  position exactly when the longest digit run after \<^verbatim>\<open>Date(\<close> is followed by \<^verbatim>\<open>)\<close>, and
  the group is that run. All the pattern's bytes are ASCII, so matching on bytes and on
  UTF-8 runes agree.
\<close>

definition isDigit :: "char \<Rightarrow> bool" where
  "isDigit c = (c \<in> set ''0123456789'')"

text \<open>The pattern anchored at the start of the text: the capture group, when it matches.\<close>

fun match_here :: "string \<Rightarrow> string option" where
  "match_here (c1 # c2 # c3 # c4 # c5 # r) =
     (if [c1, c2, c3, c4, c5] = ''Date('' then
        (case dropWhile isDigit r of
           [] \<Rightarrow> None
         | c # _ \<Rightarrow> if c = CHR '')'' then Some (takeWhile isDigit r) else None)
      else None)"
| "match_here _ = None"

text \<open>
  \<^verbatim>\<open>timestampRegex.FindStringSubmatch\<close>: the leftmost match, as the list of the matched
  text and the capture group; \<^verbatim>\<open>nil\<close> (the empty list) when there is no match.
\<close>

fun FindStringSubmatch :: "string \<Rightarrow> string list" where
  "FindStringSubmatch [] = []"
| "FindStringSubmatch (c # cs) =
     (case match_here (c # cs) of
        Some g \<Rightarrow> [''Date('' @ g @ '')'', g]
      | None \<Rightarrow> FindStringSubmatch cs)"

subsection \<open>\<^verbatim>\<open>strconv.Atoi\<close>\<close>

definition digitVal :: "char \<Rightarrow> int" where
  "digitVal c = int (of_char c) - 48"

text \<open>The loop \<^verbatim>\<open>n = n*10 + int(ch - '0')\<close> over the digits, from the left.\<close>

fun digitsValue :: "int \<Rightarrow> string \<Rightarrow> int" where
  "digitsValue n [] = n"
| "digitsValue n (ch # s) = digitsValue (n * 10 + digitVal ch) s"

definition maxInt :: int where
  "maxInt = 2 ^ 63 - 1"

text \<open>
  \<^verbatim>\<open>strconv.Atoi\<close> for a 64-bit \<^verbatim>\<open>int\<close>: an optional sign and at least one decimal digit;
  anything else is a syntax error, a value outside the range of \<^verbatim>\<open>int\<close> a range error
  (returned with the nearest bound).
\<close>

definition Atoi :: "string \<Rightarrow> int \<times> error option" where
  "Atoi s =
     (case s of
        [] \<Rightarrow> (0, Some (ErrSyntax s))
      | c # r \<Rightarrow>
          (let neg = (c = CHR ''-'');
               body = (if c = CHR ''-'' \<or> c = CHR ''+'' then r else s)
           in if body = [] \<or> \<not> list_all isDigit body then (0, Some (ErrSyntax s))
              else
                (let v = digitsValue 0 body
                 in if neg then
                      (if v > maxInt + 1 then (- maxInt - 1, Some (ErrRange s)) else (- v, None))
                    else
                      (if v > maxInt then (maxInt, Some (ErrRange s)) else (v, None)))))"

subsection \<open>\<^verbatim>\<open>convertTimestamp\<close>\<close>

text \<open>\<^verbatim>\<open>xs[i]\<close> on a slice panics when \<open>i\<close> is out of range.\<close>

definition index :: "'a list \<Rightarrow> nat \<Rightarrow> 'a outcome" where
  "index xs i = (if i < length xs then Returned (xs ! i) else Panic)"

definition convertTimestamp :: "string \<Rightarrow> (Time \<times> error option) outcome" where
  "convertTimestamp wt =
     (let matches = FindStringSubmatch wt
      in if length matches \<noteq> 2 then
           Returned (zeroTime, Some (Errorf (''failed to parse timestamp: '' @ wt)))
         else
           (case index matches 1 of
              Panic \<Rightarrow> Panic
            | Returned m1 \<Rightarrow>
                (case Atoi m1 of
                   (timeMillis, Some err) \<Rightarrow>
                     Returned (zeroTime, Some (Errorf (''invalid timestamp: '' @ m1)))
                 | (timeMillis, None) \<Rightarrow> Returned (UnixMilli timeMillis, None))))"

subsection \<open>Requests\<close>

record GlucoseReading =
  GlucoseReading_Time :: Time
  GlucoseReading_Value :: int
  GlucoseReading_Trend :: string

record RawReading =
  RawReading_Time :: string    \<comment> \<open>JSON field \<^verbatim>\<open>WT\<close>\<close>
  RawReading_Trend :: string
  RawReading_Value :: int

text \<open>The three payload structs, with their fields in declaration order.\<close>

datatype payload =
    VerifyPayload string string string      \<comment> \<open>AccountName, Password, ApplicationId\<close>
  | AuthPayload string string string        \<comment> \<open>AccountId, Password, ApplicationId\<close>
  | GetReadingsPayload string int int       \<comment> \<open>SessionId, Minutes, MaxCount\<close>

text \<open>One call of \<^verbatim>\<open>request\<close>: the endpoint it is given and the payload it posts.\<close>

record call =
  endPoint :: string
  payload :: payload

text \<open>
  What the network and the JSON decoder make of a call: a failure of \<^verbatim>\<open>http.Post\<close>,
  \<^verbatim>\<open>io.ReadAll\<close> or \<^verbatim>\<open>json.Unmarshal\<close>, or the decoded body, a bare string or a
  list of raw readings. The transport answers a call knowing the calls made before it.
\<close>

datatype reply = Failed error | StringBody string | ReadingsBody "RawReading list"

type_synonym transport = "call list \<Rightarrow> call \<Rightarrow> reply"

text \<open>
  \<^verbatim>\<open>request(endPoint, payload, result)\<close>: posts the payload and appends the call to the
  log of calls made so far. Marshalling the three payload structs cannot fail.
\<close>

definition request :: "transport \<Rightarrow> string \<Rightarrow> payload \<Rightarrow> call list \<Rightarrow> reply \<times> call list" where
  "request net ep p log =
     (let c = \<lparr>endPoint = ep, payload = p\<rparr> in (net log c, log @ [c]))"

text \<open>
  The result of \<^verbatim>\<open>request\<close> when \<^verbatim>\<open>result\<close> points to a string, and when it points to a
  slice of raw readings: the decoded value and the error. A body of the other shape is a
  decoding error.
\<close>

definition asString :: "reply \<Rightarrow> string \<times> error option" where
  "asString r =
     (case r of
        Failed e \<Rightarrow> ([], Some e)
      | StringBody s \<Rightarrow> (s, None)
      | ReadingsBody _ \<Rightarrow> ([], Some (DecodeError ''json: cannot unmarshal array into Go value of type string'')))"

definition asReadings :: "reply \<Rightarrow> RawReading list \<times> error option" where
  "asReadings r =
     (case r of
        Failed e \<Rightarrow> ([], Some e)
      | StringBody _ \<Rightarrow> ([], Some (DecodeError ''json: cannot unmarshal string into Go value of type []dexgo.RawReading''))
      | ReadingsBody rs \<Rightarrow> (rs, None))"

subsection \<open>The client\<close>

record Dexcom =
  username :: string
  password :: string
  accountId :: "string option"
  sessionId :: "string option"

definition New :: "string \<Rightarrow> string \<Rightarrow> Dexcom" where
  "New u p = \<lparr>username = u, password = p, accountId = None, sessionId = None\<rparr>"

text \<open>
  The methods take the client and the log of calls and return them updated, next to
  their result.
\<close>

definition fetchAccountId ::
  "transport \<Rightarrow> Dexcom \<Rightarrow> call list \<Rightarrow> error option \<times> Dexcom \<times> call list" where
  "fetchAccountId net d log =
     (let p = VerifyPayload (username d) (password d) dexcomApplicationId;
          (r, log1) = request net dexcomAuthEndpoint p log
      in case asString r of
           (a, Some err) \<Rightarrow> (Some err, d, log1)
         | (a, None) \<Rightarrow> (None, d\<lparr>accountId := Some a\<rparr>, log1))"

text \<open>\<^verbatim>\<open>auth\<close> dereferences \<^verbatim>\<open>d.accountId\<close> to build its payload: a panic when it is nil.\<close>

definition auth ::
  "transport \<Rightarrow> Dexcom \<Rightarrow> call list \<Rightarrow> (error option) outcome \<times> Dexcom \<times> call list" where
  "auth net d log =
     (case accountId d of
        None \<Rightarrow> (Panic, d, log)
      | Some a \<Rightarrow>
          (let p = AuthPayload a (password d) dexcomApplicationId;
               (r, log1) = request net dexcomLoginEndpoint p log
           in case asString r of
                (s, Some err) \<Rightarrow> (Returned (Some err), d, log1)
              | (s, None) \<Rightarrow> (Returned None, d\<lparr>sessionId := Some s\<rparr>, log1)))"

text \<open>The loop of \<^verbatim>\<open>GetReadings\<close> over the raw values, with the slice built so far.\<close>

fun convertAll ::
  "RawReading list \<Rightarrow> GlucoseReading list \<Rightarrow> (GlucoseReading list \<times> error option) outcome" where
  "convertAll [] readings = Returned (readings, None)"
| "convertAll (rv # rest) readings =
     (case convertTimestamp (RawReading_Time rv) of
        Panic \<Rightarrow> Panic
      | Returned (timestamp, Some err) \<Rightarrow> Returned ([], Some err)
      | Returned (timestamp, None) \<Rightarrow>
          convertAll rest
            (readings @ [\<lparr>GlucoseReading_Time = timestamp,
                          GlucoseReading_Value = RawReading_Value rv,
                          GlucoseReading_Trend = RawReading_Trend rv\<rparr>]))"

text \<open>
  Lines 119 to 124: the lazy login. The errors that \<^verbatim>\<open>fetchAccountId\<close> and \<^verbatim>\<open>auth\<close>
  return are dropped; only a panic ends the call.
\<close>

definition login :: "transport \<Rightarrow> Dexcom \<Rightarrow> call list \<Rightarrow> unit outcome \<times> Dexcom \<times> call list" where
  "login net d log =
     (if sessionId d = None then
        (let (d1, log1) =
               (if accountId d = None then
                  (case fetchAccountId net d log of (_, d', log') \<Rightarrow> (d', log'))
                else (d, log))
         in case auth net d1 log1 of
              (Panic, d2, log2) \<Rightarrow> (Panic, d2, log2)
            | (Returned _, d2, log2) \<Rightarrow> (Returned (), d2, log2))
      else (Returned (), d, log))"

text \<open>
  \<^verbatim>\<open>GetReadings\<close>: after the login, \<^verbatim>\<open>d.sessionId\<close> is dereferenced to build the payload (a
  panic when it is still nil), the readings are requested and converted one by one.
\<close>

definition GetReadings ::
  "transport \<Rightarrow> int \<Rightarrow> int \<Rightarrow> Dexcom \<Rightarrow> call list \<Rightarrow>
     (GlucoseReading list \<times> error option) outcome \<times> Dexcom \<times> call list" where
  "GetReadings net minutes numReadings d log =
     (case login net d log of
        (Panic, d1, log1) \<Rightarrow> (Panic, d1, log1)
      | (Returned _, d1, log1) \<Rightarrow>
          (case sessionId d1 of
             None \<Rightarrow> (Panic, d1, log1)
           | Some sid \<Rightarrow>
               (let p = GetReadingsPayload sid minutes numReadings;
                    (r, log2) = request net dexcomGetLatestEndpoint p log1
                in case asReadings r of
                     (rawValues, Some err) \<Rightarrow> (Returned ([], Some err), d1, log2)
                   | (rawValues, None) \<Rightarrow> (convertAll rawValues [], d1, log2))))"

text \<open>The parts of what a method returns: its result, the client and the log afterwards.\<close>

definition result :: "'a \<times> Dexcom \<times> call list \<Rightarrow> 'a" where
  "result x = fst x"

definition client :: "'a \<times> Dexcom \<times> call list \<Rightarrow> Dexcom" where
  "client x = fst (snd x)"

definition calls :: "'a \<times> Dexcom \<times> call list \<Rightarrow> call list" where
  "calls x = snd (snd x)"

section \<open>Notions of the specification\<close>

subsection \<open>Writing a timestamp\<close>

text \<open>
  The vendor's encoding of an instant: \<^verbatim>\<open>Date(\<close>, the milliseconds since the epoch in
  decimal without leading zeros, \<^verbatim>\<open>)\<close>.
\<close>

definition digitChar :: "nat \<Rightarrow> char" where
  "digitChar k = ''0123456789'' ! (k mod 10)"

fun digits_of :: "nat \<Rightarrow> string" where
  "digits_of n =
     (if n < 10 then [digitChar n] else digits_of (n div 10) @ [digitChar (n mod 10)])"

declare digits_of.simps [simp del]

definition encodeDate :: "int \<Rightarrow> string" where
  "encodeDate n = ''Date('' @ digits_of (nat n) @ '')''"

subsection \<open>Transports for tests\<close>

text \<open>A transport that answers the \<open>k\<close>-th call with the \<open>k\<close>-th reply of a script.\<close>

definition scripted :: "reply list \<Rightarrow> transport" where
  "scripted rs log c =
     (if length log < length rs then rs ! length log
      else Failed (TransportError ''no more replies''))"

subsection \<open>Kinds of calls\<close>

definition isVerify :: "call \<Rightarrow> bool" where
  "isVerify c = (case payload c of VerifyPayload _ _ _ \<Rightarrow> True | _ \<Rightarrow> False)"

definition isAuth :: "call \<Rightarrow> bool" where
  "isAuth c = (case payload c of AuthPayload _ _ _ \<Rightarrow> True | _ \<Rightarrow> False)"

definition isFetch :: "call \<Rightarrow> bool" where
  "isFetch c = (case payload c of GetReadingsPayload _ _ _ \<Rightarrow> True | _ \<Rightarrow> False)"

subsection \<open>The order of the handshake\<close>



subsection \<open>The calls of the three steps\<close>

text \<open>The call that each step of \<^verbatim>\<open>GetReadings\<close> makes, as the source builds it.\<close>

definition verifyCall :: "Dexcom \<Rightarrow> call" where
  "verifyCall d = \<lparr>endPoint = dexcomAuthEndpoint,
                   payload = VerifyPayload (username d) (password d) dexcomApplicationId\<rparr>"

definition authCall :: "Dexcom \<Rightarrow> string \<Rightarrow> call" where
  "authCall d a = \<lparr>endPoint = dexcomLoginEndpoint,
                   payload = AuthPayload a (password d) dexcomApplicationId\<rparr>"

definition fetchCall :: "string \<Rightarrow> int \<Rightarrow> int \<Rightarrow> call" where
  "fetchCall sid minutes numReadings =
     \<lparr>endPoint = dexcomGetLatestEndpoint, payload = GetReadingsPayload sid minutes numReadings\<rparr>"

subsection \<open>A reading and its raw record\<close>

text \<open>
  A reading is the decoding of a raw record: value and trend are the record's, and the time
  is what \<^verbatim>\<open>convertTimestamp\<close> returns for the record's \<^verbatim>\<open>WT\<close>.
\<close>

definition decodes :: "RawReading \<Rightarrow> GlucoseReading \<Rightarrow> bool" where
  "decodes rv g =
     (GlucoseReading_Value g = RawReading_Value rv \<and>
      GlucoseReading_Trend g = RawReading_Trend rv \<and>
      convertTimestamp (RawReading_Time rv) = Returned (GlucoseReading_Time g, None))"

text \<open>A transport on which every request succeeds, with one reading to fetch.\<close>

definition alwaysOk :: transport where
  "alwaysOk log c =
     (case payload c of
        VerifyPayload _ _ _ \<Rightarrow> StringBody ''acct''
      | AuthPayload _ _ _ \<Rightarrow> StringBody ''sess''
      | GetReadingsPayload _ _ _ \<Rightarrow>
          ReadingsBody [\<lparr>RawReading_Time = ''Date(1609459200000)'', RawReading_Trend = ''Flat'',
                          RawReading_Value = 120\<rparr>])"


section \<open>Properties of the timestamp decoding\<close>

lemma isDigit_not_paren [simp]: "\<not> isDigit CHR '')''"
  by (simp add: isDigit_def)

lemma isDigit_not_D [simp]: "\<not> isDigit CHR ''D''"
  by (simp add: isDigit_def)

lemma takeWhile_digits_stop:
  "list_all isDigit ds \<Longrightarrow> \<not> isDigit c \<Longrightarrow> takeWhile isDigit (ds @ c # post) = ds"
  by (induction ds) auto

lemma dropWhile_digits_stop:
  "list_all isDigit ds \<Longrightarrow> \<not> isDigit c \<Longrightarrow> dropWhile isDigit (ds @ c # post) = c # post"
  by (induction ds) auto

lemma match_here_Date:
  "list_all isDigit ds \<Longrightarrow> match_here (''Date('' @ ds @ CHR '')'' # post) = Some ds"
  by (simp add: takeWhile_digits_stop dropWhile_digits_stop)

lemma match_here_digits: "match_here s = Some g \<Longrightarrow> list_all isDigit g"
  by (induction s rule: match_here.induct)
     (auto split: if_splits list.splits simp: list_all_iff dest: set_takeWhileD)

lemma dropWhile_append_D:
  "dropWhile isDigit r = [] \<Longrightarrow> dropWhile isDigit (r @ CHR ''D'' # t) = CHR ''D'' # t"
  by (induction r) (auto split: if_splits)

lemma dropWhile_append_nonempty:
  "dropWhile isDigit r = c # u \<Longrightarrow> dropWhile isDigit (r @ t) = c # u @ t"
  by (induction r) (auto split: if_splits)

lemma match_here_no_prefix: "take 5 s \<noteq> ''Date('' \<Longrightarrow> match_here s = None"
  by (induction s rule: match_here.induct) auto

text \<open>A text that the pattern does not match at its start still does not when a \<open>D\<close> follows it.\<close>

lemma match_here_append_D:
  "s \<noteq> [] \<Longrightarrow> match_here s = None \<Longrightarrow> match_here (s @ CHR ''D'' # t) = None"
proof (induction s rule: match_here.induct)
  case (1 c1 c2 c3 c4 c5 r)
  show ?case
  proof (cases "dropWhile isDigit r")
    case Nil
    with 1 show ?thesis by (simp add: dropWhile_append_D)
  next
    case (Cons c u)
    with 1 show ?thesis by (auto simp: dropWhile_append_nonempty split: if_splits)
  qed
qed (auto intro: match_here_no_prefix)

lemma FindStringSubmatch_skip:
  "FindStringSubmatch pre = [] \<Longrightarrow>
   FindStringSubmatch (pre @ CHR ''D'' # t) = FindStringSubmatch (CHR ''D'' # t)"
proof (induction pre)
  case Nil
  show ?case by simp
next
  case (Cons c cs)
  from Cons.prems have m: "match_here (c # cs) = None" and f: "FindStringSubmatch cs = []"
    by (auto split: option.splits)
  have "match_here ((c # cs) @ CHR ''D'' # t) = None"
    using m by (intro match_here_append_D) auto
  then show ?case using Cons.IH [OF f] by simp
qed

lemma FindStringSubmatch_shape:
  "FindStringSubmatch wt = [] \<or>
   (\<exists>g. FindStringSubmatch wt = [''Date('' @ g @ '')'', g] \<and> list_all isDigit g)"
  by (induction wt) (auto split: option.splits dest: match_here_digits)

lemma FindStringSubmatch_Date:
  "list_all isDigit ds \<Longrightarrow>
   FindStringSubmatch (''Date('' @ ds @ CHR '')'' # post) = [''Date('' @ ds @ '')'', ds]"
  using match_here_Date [of ds post] by simp

lemma isDigit_not_sign: "isDigit c \<Longrightarrow> c \<noteq> CHR ''-'' \<and> c \<noteq> CHR ''+''"
  by (auto simp: isDigit_def)

lemma digitVal_range: "isDigit c \<Longrightarrow> 0 \<le> digitVal c \<and> digitVal c \<le> 9"
  by (auto simp: isDigit_def digitVal_def)

lemma digitsValue_nonneg: "list_all isDigit ds \<Longrightarrow> 0 \<le> n \<Longrightarrow> 0 \<le> digitsValue n ds"
proof (induction ds arbitrary: n)
  case Nil
  then show ?case by simp
next
  case (Cons c ds)
  then have "0 \<le> n * 10 + digitVal c" using digitVal_range [of c] by simp
  with Cons show ?case by simp
qed

text \<open>On a run of digits \<^verbatim>\<open>Atoi\<close> fails only when the run is empty or its value too large.\<close>

lemma Atoi_digits:
  assumes "list_all isDigit ds" "ds \<noteq> []"
  shows "Atoi ds = (if digitsValue 0 ds > maxInt then (maxInt, Some (ErrRange ds))
                    else (digitsValue 0 ds, None))"
proof -
  from assms obtain c r where ds: "ds = c # r" and c: "isDigit c" by (cases ds) auto
  from c have "c \<noteq> CHR ''-''" "c \<noteq> CHR ''+''" using isDigit_not_sign by auto
  then show ?thesis using assms unfolding ds Atoi_def by (simp add: Let_def)
qed

lemma Atoi_empty: "Atoi [] = (0, Some (ErrSyntax []))"
  by (simp add: Atoi_def)

lemma UnixMilli_nonneg:
  "0 \<le> v \<Longrightarrow> UnixMilli v = \<lparr>unixSec = v div 1000, nsec = (v mod 1000) * 1000000\<rparr>"
proof -
  assume v: "0 \<le> v"
  have q: "go_quot v 1000 = v div 1000" using v by (cases "v = 0") (simp_all add: go_quot_def)
  have r: "go_rem v 1000 = v mod 1000" using v by (cases "v = 0") (simp_all add: go_rem_def)
  have m: "\<not> v mod 1000 < 0" "\<not> 1000 \<le> v mod 1000" by simp_all
  show ?thesis unfolding UnixMilli_def q r Unix_def using m by simp
qed

lemma digitsValue_snoc: "digitsValue n (ds @ [c]) = digitsValue n ds * 10 + digitVal c"
  by (induction ds arbitrary: n) auto

lemma digitChar_props: "k < 10 \<Longrightarrow> isDigit (digitChar k) \<and> digitVal (digitChar k) = int k"
proof -
  assume "k < 10"
  then have "k \<in> {0,1,2,3,4,5,6,7,8,9}" by auto
  then show ?thesis by (auto simp: digitChar_def isDigit_def digitVal_def)
qed

lemma digits_of_small: "n < 10 \<Longrightarrow> digits_of n = [digitChar n]"
  by (subst digits_of.simps) simp

lemma digits_of_large:
  "\<not> n < 10 \<Longrightarrow> digits_of n = digits_of (n div 10) @ [digitChar (n mod 10)]"
  by (subst digits_of.simps) simp

lemma digits_of_digits: "list_all isDigit (digits_of n) \<and> digits_of n \<noteq> []"
proof (induction n rule: digits_of.induct)
  case (1 n)
  show ?case
  proof (cases "n < 10")
    case True
    then show ?thesis using digitChar_props [of n] by (simp add: digits_of_small)
  next
    case False
    have "n mod 10 < 10" by simp
    then have "isDigit (digitChar (n mod 10))" using digitChar_props by blast
    with False 1 show ?thesis by (simp add: digits_of_large)
  qed
qed

lemma digitsValue_digits_of: "digitsValue 0 (digits_of n) = int n"
proof (induction n rule: digits_of.induct)
  case (1 n)
  show ?case
  proof (cases "n < 10")
    case True
    then show ?thesis using digitChar_props [of n] by (simp add: digits_of_small)
  next
    case False
    have "n mod 10 < 10" by simp
    then have d: "digitVal (digitChar (n mod 10)) = int (n mod 10)" using digitChar_props by blast
    have "digitsValue 0 (digits_of n) = digitsValue 0 (digits_of (n div 10)) * 10 + int (n mod 10)"
      using False d by (simp add: digits_of_large digitsValue_snoc)
    also have "\<dots> = int (n div 10) * 10 + int (n mod 10)" using 1 False by simp
    also have "\<dots> = int n" by (simp add: zdiv_int zmod_int)
    finally show ?thesis .
  qed
qed

text \<open>
  \<^verbatim>\<open>convertTimestamp\<close> by the result of the pattern: the index \<^verbatim>\<open>matches[1]\<close> is read
  only when there are two matches.
\<close>

lemma convertTimestamp_cases:
  "convertTimestamp wt =
     (case FindStringSubmatch wt of
        [full, g] \<Rightarrow>
          (case Atoi g of
             (v, None) \<Rightarrow> Returned (UnixMilli v, None)
           | (v, Some e) \<Rightarrow> Returned (zeroTime, Some (Errorf (''invalid timestamp: '' @ g))))
      | _ \<Rightarrow> Returned (zeroTime, Some (Errorf (''failed to parse timestamp: '' @ wt))))"
  using FindStringSubmatch_shape [of wt]
  by (auto simp: convertTimestamp_def index_def Let_def split: prod.splits option.splits)

text \<open>
  When the pattern is found, the result depends on the digit run alone: a non-empty run of
  value at most \<open>2^63 - 1\<close> is the instant that many milliseconds after the epoch.
\<close>

lemma convertTimestamp_found:
  assumes "FindStringSubmatch wt = [full, ds]" "list_all isDigit ds"
  shows "convertTimestamp wt =
     (if ds \<noteq> [] \<and> digitsValue 0 ds \<le> maxInt
      then Returned (\<lparr>unixSec = digitsValue 0 ds div 1000,
                      nsec = (digitsValue 0 ds mod 1000) * 1000000\<rparr>, None)
      else Returned (zeroTime, Some (Errorf (''invalid timestamp: '' @ ds))))"
proof (cases "ds = []")
  case True
  then show ?thesis using assms(1) by (simp add: convertTimestamp_cases Atoi_empty)
next
  case False
  have "0 \<le> digitsValue 0 ds" using assms(2) by (simp add: digitsValue_nonneg)
  then show ?thesis
    using False assms(1) Atoi_digits [OF assms(2) False]
    by (simp add: convertTimestamp_cases UnixMilli_nonneg)
qed

lemma convertTimestamp_Date:
  assumes "list_all isDigit ds"
  shows "convertTimestamp (''Date('' @ ds @ CHR '')'' # post) =
     (if ds \<noteq> [] \<and> digitsValue 0 ds \<le> maxInt
      then Returned (\<lparr>unixSec = digitsValue 0 ds div 1000,
                      nsec = (digitsValue 0 ds mod 1000) * 1000000\<rparr>, None)
      else Returned (zeroTime, Some (Errorf (''invalid timestamp: '' @ ds))))"
  using convertTimestamp_found [OF FindStringSubmatch_Date [OF assms, of post] assms] .

text \<open>
  Claim C4. Timestamp decoding is total and never panics: for every input string
  \<^verbatim>\<open>convertTimestamp\<close> returns a timestamp or a parse error. When the pattern does not yield
  the match and its one capture group, the error names the raw string; when the captured
  digits are not a valid integer, the error names the digit string.
\<close>

theorem convertTimestamp_total:
  "convertTimestamp wt \<noteq> Panic \<and>
   ((\<exists>t. convertTimestamp wt = Returned (t, None)) \<or>
    (\<exists>msg. convertTimestamp wt = Returned (zeroTime, Some (Errorf msg)))) \<and>
   (length (FindStringSubmatch wt) \<noteq> 2 \<longrightarrow>
      convertTimestamp wt =
        Returned (zeroTime, Some (Errorf (''failed to parse timestamp: '' @ wt)))) \<and>
   (\<forall>full g v e. FindStringSubmatch wt = [full, g] \<longrightarrow> Atoi g = (v, Some e) \<longrightarrow>
      convertTimestamp wt =
        Returned (zeroTime, Some (Errorf (''invalid timestamp: '' @ g)))) \<and>
   (\<forall>full g v. FindStringSubmatch wt = [full, g] \<longrightarrow> Atoi g = (v, None) \<longrightarrow>
      convertTimestamp wt = Returned (UnixMilli v, None))"
proof -
  consider "FindStringSubmatch wt = []"
    | g where "FindStringSubmatch wt = [''Date('' @ g @ '')'', g]"
    using FindStringSubmatch_shape [of wt] by blast
  then show ?thesis
  proof cases
    case 1
    then show ?thesis by (simp add: convertTimestamp_cases)
  next
    case 2
    then show ?thesis
      by (cases "Atoi g") (auto simp: convertTimestamp_cases split: option.splits)
  qed
qed

text \<open>The three cases of C4 at \<^verbatim>\<open>garbage\<close>, \<^verbatim>\<open>Date()\<close> and \<^verbatim>\<open>Date(25)\<close>.\<close>

theorem convertTimestamp_total_witness:
  "convertTimestamp ''garbage'' =
     Returned (zeroTime, Some (Errorf ''failed to parse timestamp: garbage'')) \<and>
   convertTimestamp ''Date()'' = Returned (zeroTime, Some (Errorf ''invalid timestamp: '')) \<and>
   convertTimestamp ''Date(25)'' = Returned (UnixMilli 25, None)"
proof -
  have f0: "FindStringSubmatch ''garbage'' = []" by simp
  have f1: "FindStringSubmatch ''Date()'' = [''Date()'', []]" by simp
  have f2: "FindStringSubmatch ''Date(25)'' = [''Date(25)'', ''25'']" by (simp add: isDigit_def)
  have a1: "Atoi [] = (0, Some (ErrSyntax []))" by (simp add: Atoi_def)
  have a2: "Atoi ''25'' = (25, None)" by (simp add: Atoi_def isDigit_def digitVal_def maxInt_def)
  show ?thesis
    using convertTimestamp_total [of "''garbage''"] convertTimestamp_total [of "''Date()''"]
      convertTimestamp_total [of "''Date(25)''"] f0 f1 f2 a1 a2
    by simp
qed

text \<open>
  Claim C5. For every well-formed vendor timestamp \<^verbatim>\<open>Date(<epoch-milliseconds>)\<close> (a
  non-empty run of decimal digits whose value a 64-bit \<^verbatim>\<open>int\<close> holds), decoding returns the
  instant that many milliseconds after the Unix epoch. In particular
  \<^verbatim>\<open>Date(1609459200000)\<close> decodes to 2021-01-01T00:00:00Z, and \<^verbatim>\<open>Date(abc)\<close> and
  \<^verbatim>\<open>garbage\<close> give a parse error whose message contains the input.
\<close>

theorem convertTimestamp_well_formed:
  "(list_all isDigit ds \<and> ds \<noteq> [] \<and> digitsValue 0 ds \<le> maxInt \<longrightarrow>
      (\<exists>t. convertTimestamp (''Date('' @ ds @ '')'') = Returned (t, None) \<and>
           unixNano t = digitsValue 0 ds * 1000000)) \<and>
   convertTimestamp ''Date(1609459200000)'' = Returned (utc 2021 1 1 0 0 0, None) \<and>
   convertTimestamp ''Date(abc)'' =
     Returned (zeroTime, Some (Errorf ''failed to parse timestamp: Date(abc)'')) \<and>
   convertTimestamp ''garbage'' =
     Returned (zeroTime, Some (Errorf ''failed to parse timestamp: garbage''))"
proof -
  have a: "\<exists>t. convertTimestamp (''Date('' @ ds @ '')'') = Returned (t, None) \<and>
           unixNano t = digitsValue 0 ds * 1000000"
    if "list_all isDigit ds" "ds \<noteq> []" "digitsValue 0 ds \<le> maxInt"
  proof -
    have "(digitsValue 0 ds div 1000) * 1000000000 + (digitsValue 0 ds mod 1000) * 1000000
          = digitsValue 0 ds * 1000000"
      by presburger
    then show ?thesis using that convertTimestamp_Date [OF that(1), of "[]"]
      by (simp add: unixNano_def)
  qed
  have b: "convertTimestamp ''Date(1609459200000)'' = Returned (utc 2021 1 1 0 0 0, None)"
    by (simp add: convertTimestamp_def index_def Atoi_def isDigit_def digitVal_def maxInt_def
        UnixMilli_def Unix_def go_quot_def go_rem_def utc_def days_from_civil_def)
  have c: "convertTimestamp ''Date(abc)'' =
     Returned (zeroTime, Some (Errorf ''failed to parse timestamp: Date(abc)''))"
    by (simp add: convertTimestamp_def isDigit_def)
  have d: "convertTimestamp ''garbage'' =
     Returned (zeroTime, Some (Errorf ''failed to parse timestamp: garbage''))"
    by (simp add: convertTimestamp_def)
  from a b c d show ?thesis by blast
qed

text \<open>C5 at \<^verbatim>\<open>Date(0042)\<close>: leading zeros are read as decimal digits.\<close>

theorem convertTimestamp_well_formed_witness:
  "\<exists>t. convertTimestamp ''Date(0042)'' = Returned (t, None) \<and> unixNano t = 42000000"
proof -
  have "list_all isDigit ''0042'' \<and> ''0042'' \<noteq> [] \<and> digitsValue 0 ''0042'' \<le> maxInt"
    by (simp add: isDigit_def digitVal_def maxInt_def)
  moreover have "digitsValue 0 ''0042'' = 42" by (simp add: digitVal_def)
  ultimately show ?thesis using convertTimestamp_well_formed [of "''0042''"] by simp
qed

text \<open>
  Claim C9. For every non-negative number \<open>n\<close> of epoch milliseconds within the range of
  \<^verbatim>\<open>int\<close>, writing \<open>n\<close> as \<^verbatim>\<open>Date(n)\<close> and decoding it returns exactly the instant \<open>n\<close>
  milliseconds after the Unix epoch: \<open>n div 1000\<close> seconds and \<open>n mod 1000\<close> milliseconds,
  that is \<open>n * 10^6\<close> nanoseconds.
\<close>

theorem convertTimestamp_roundtrip:
  assumes "0 \<le> n" "n \<le> maxInt"
  shows "convertTimestamp (encodeDate n) =
           Returned (\<lparr>unixSec = n div 1000, nsec = (n mod 1000) * 1000000\<rparr>, None) \<and>
         unixNano \<lparr>unixSec = n div 1000, nsec = (n mod 1000) * 1000000\<rparr> = n * 1000000"
proof -
  have v: "digitsValue 0 (digits_of (nat n)) = n" using assms(1) by (simp add: digitsValue_digits_of)
  have d: "list_all isDigit (digits_of (nat n))" "digits_of (nat n) \<noteq> []"
    using digits_of_digits by blast+
  have "convertTimestamp (encodeDate n) =
           Returned (\<lparr>unixSec = n div 1000, nsec = (n mod 1000) * 1000000\<rparr>, None)"
    using convertTimestamp_Date [OF d(1), of "[]"] d(2) assms(2) unfolding v encodeDate_def by simp
  moreover have "(n div 1000) * 1000000000 + (n mod 1000) * 1000000 = n * 1000000"
    by presburger
  ultimately show ?thesis by (simp add: unixNano_def)
qed

text \<open>C9 at 1609459200123 milliseconds.\<close>

theorem convertTimestamp_roundtrip_witness:
  "encodeDate 1609459200123 = ''Date(1609459200123)'' \<and>
   convertTimestamp ''Date(1609459200123)'' =
     Returned (\<lparr>unixSec = 1609459200, nsec = 123000000\<rparr>, None)"
proof -
  have e: "encodeDate 1609459200123 = ''Date(1609459200123)''"
    by (simp add: encodeDate_def digitChar_def digits_of.simps)
  have "(0::int) \<le> 1609459200123" "1609459200123 \<le> maxInt" by (simp_all add: maxInt_def)
  from convertTimestamp_roundtrip [OF this] e show ?thesis by simp
qed

text \<open>
  Claim C10 as stated says that every text containing \<^verbatim>\<open>Date(<nonempty digit run>)\<close>
  somewhere decodes to the instant of the first such run. It does not: the pattern also
  matches an empty run, so an earlier \<^verbatim>\<open>Date()\<close> is the match that is decoded, and a run
  whose value exceeds \<open>2^63 - 1\<close> is rejected by \<^verbatim>\<open>Atoi\<close>. Both give the error
  \<^verbatim>\<open>invalid timestamp\<close>.
\<close>

theorem convertTimestamp_unanchored_counterexample:
  "convertTimestamp ''Date()xxDate(123)yy'' =
     Returned (zeroTime, Some (Errorf ''invalid timestamp: '')) \<and>
   convertTimestamp ''xxDate(99999999999999999999)yy'' =
     Returned (zeroTime, Some (Errorf ''invalid timestamp: 99999999999999999999''))"
  by (simp add: convertTimestamp_def index_def Atoi_def isDigit_def digitVal_def maxInt_def)

text \<open>
  Claim C10, amended. The pattern is unanchored: in a text \<open>pre @ Date(ds) @ post\<close> where
  the pattern does not occur in \<open>pre\<close> and \<open>ds\<close> is a run of digits, possibly empty, the
  surrounding text is ignored. Decoding succeeds with the instant \<open>ds\<close> milliseconds after
  the epoch when \<open>ds\<close> is not empty and its value is at most \<open>2^63 - 1\<close>, and fails with the
  error \<^verbatim>\<open>invalid timestamp: ds\<close> otherwise.
\<close>

theorem convertTimestamp_unanchored:
  assumes "FindStringSubmatch pre = []" "list_all isDigit ds"
  shows "convertTimestamp (pre @ ''Date('' @ ds @ '')'' @ post) =
     (if ds \<noteq> [] \<and> digitsValue 0 ds \<le> maxInt
      then Returned (\<lparr>unixSec = digitsValue 0 ds div 1000,
                      nsec = (digitsValue 0 ds mod 1000) * 1000000\<rparr>, None)
      else Returned (zeroTime, Some (Errorf (''invalid timestamp: '' @ ds))))"
proof -
  have "FindStringSubmatch (pre @ CHR ''D'' # ''ate('' @ ds @ '')'' @ post) =
        FindStringSubmatch (CHR ''D'' # ''ate('' @ ds @ '')'' @ post)"
    using assms(1) by (rule FindStringSubmatch_skip)
  also have "\<dots> = [''Date('' @ ds @ '')'', ds]"
    using FindStringSubmatch_Date [OF assms(2), of post] by simp
  finally have "FindStringSubmatch (pre @ ''Date('' @ ds @ '')'' @ post) = [''Date('' @ ds @ '')'', ds]"
    by simp
  from convertTimestamp_found [OF this assms(2)] show ?thesis .
qed

text \<open>The amended C10 at \<^verbatim>\<open>xxDate(123)yy\<close>.\<close>

theorem convertTimestamp_unanchored_witness:
  "convertTimestamp ''xxDate(123)yy'' = Returned (\<lparr>unixSec = 0, nsec = 123000000\<rparr>, None)"
proof -
  have "FindStringSubmatch ''xx'' = []" by simp
  moreover have "list_all isDigit ''123''" by (simp add: isDigit_def)
  ultimately show ?thesis
    using convertTimestamp_unanchored [of "''xx''" "''123''" "''yy''"]
    by (simp add: digitVal_def maxInt_def)
qed

section \<open>Properties of the client\<close>

subsection \<open>The methods by cases\<close>

lemma call_kinds [simp]:
  "isVerify (verifyCall d)" "\<not> isAuth (verifyCall d)" "\<not> isFetch (verifyCall d)"
  "\<not> isVerify (authCall d a)" "isAuth (authCall d a)" "\<not> isFetch (authCall d a)"
  "\<not> isVerify (fetchCall s m n)" "\<not> isAuth (fetchCall s m n)" "isFetch (fetchCall s m n)"
  by (simp_all add: isVerify_def isAuth_def isFetch_def verifyCall_def authCall_def fetchCall_def)

lemma fetchAccountId_eq:
  "fetchAccountId net d log =
     (case asString (net log (verifyCall d)) of
        (a, Some err) \<Rightarrow> (Some err, d, log @ [verifyCall d])
      | (a, None) \<Rightarrow> (None, d\<lparr>accountId := Some a\<rparr>, log @ [verifyCall d]))"
  unfolding fetchAccountId_def request_def verifyCall_def Let_def by simp

lemma auth_eq:
  "auth net d log =
     (case accountId d of
        None \<Rightarrow> (Panic, d, log)
      | Some a \<Rightarrow>
          (case asString (net log (authCall d a)) of
             (s, Some err) \<Rightarrow> (Returned (Some err), d, log @ [authCall d a])
           | (s, None) \<Rightarrow> (Returned None, d\<lparr>sessionId := Some s\<rparr>, log @ [authCall d a])))"
  unfolding auth_def request_def authCall_def Let_def by (simp split: option.splits)

lemma GetReadings_eq:
  "GetReadings net m n d log =
     (case login net d log of
        (Panic, d1, log1) \<Rightarrow> (Panic, d1, log1)
      | (Returned _, d1, log1) \<Rightarrow>
          (case sessionId d1 of
             None \<Rightarrow> (Panic, d1, log1)
           | Some sid \<Rightarrow>
               (case asReadings (net log1 (fetchCall sid m n)) of
                  (rawValues, Some err) \<Rightarrow> (Returned ([], Some err), d1, log1 @ [fetchCall sid m n])
                | (rawValues, None) \<Rightarrow> (convertAll rawValues [], d1, log1 @ [fetchCall sid m n]))))"
  unfolding GetReadings_def request_def fetchCall_def Let_def
  by (simp split: prod.splits outcome.splits option.splits)

text \<open>The login by the cached ids.\<close>

lemma login_cached: "sessionId d = Some s \<Longrightarrow> login net d log = (Returned (), d, log)"
  by (simp add: login_def)

lemma login_account_cached:
  "sessionId d = None \<Longrightarrow> accountId d = Some a \<Longrightarrow>
   login net d log =
     (case asString (net log (authCall d a)) of
        (s, Some err) \<Rightarrow> (Returned (), d, log @ [authCall d a])
      | (s, None) \<Rightarrow> (Returned (), d\<lparr>sessionId := Some s\<rparr>, log @ [authCall d a]))"
  by (simp add: login_def auth_eq split: prod.splits option.splits)

lemma login_fresh:
  "sessionId d = None \<Longrightarrow> accountId d = None \<Longrightarrow>
   login net d log =
     (case asString (net log (verifyCall d)) of
        (a, Some err) \<Rightarrow> (Panic, d, log @ [verifyCall d])
      | (a, None) \<Rightarrow>
          (case asString (net (log @ [verifyCall d]) (authCall d a)) of
             (s, Some err) \<Rightarrow>
               (Returned (), d\<lparr>accountId := Some a\<rparr>, log @ [verifyCall d, authCall d a])
           | (s, None) \<Rightarrow>
               (Returned (), d\<lparr>accountId := Some a, sessionId := Some s\<rparr>,
                log @ [verifyCall d, authCall d a])))"
  unfolding login_def auth_eq fetchAccountId_eq authCall_def
  by (simp split: prod.splits option.splits)

subsection \<open>Endpoints\<close>

text \<open>
  Claim C1 as stated sends the account-id request to \<^verbatim>\<open>General/LoginPublisherAccountById\<close>
  and the session request to \<^verbatim>\<open>General/AuthenticatePublisherAccount\<close>. The source has them
  the other way round: \<^verbatim>\<open>fetchAccountId\<close> posts to \<^verbatim>\<open>dexcomAuthEndpoint\<close>.
\<close>

theorem login_endpoints_counterexample:
  "map endPoint (calls (fetchAccountId (scripted [StringBody ''acct'']) (New ''u'' ''p'') [])) =
     [''General/AuthenticatePublisherAccount''] \<and>
   map endPoint (calls (fetchAccountId (scripted [StringBody ''acct'']) (New ''u'' ''p'') [])) \<noteq>
     [''General/LoginPublisherAccountById'']"
  by (simp add: fetchAccountId_eq scripted_def asString_def calls_def verifyCall_def
      dexcomAuthEndpoint_def)

text \<open>
  Claim C1, amended. The account-id step sends (accountName, password, applicationId) to
  \<^verbatim>\<open>General/AuthenticatePublisherAccount\<close>, and the session step sends (accountId,
  password, applicationId) to \<^verbatim>\<open>General/LoginPublisherAccountById\<close>.
\<close>

theorem login_endpoints:
  "calls (fetchAccountId net d log) =
     log @ [\<lparr>endPoint = ''General/AuthenticatePublisherAccount'',
              payload = VerifyPayload (username d) (password d)
                          ''d89443d2-327c-4a6f-89e5-496bbb0317db''\<rparr>] \<and>
   (\<forall>a. accountId d = Some a \<longrightarrow>
      calls (auth net d log) =
        log @ [\<lparr>endPoint = ''General/LoginPublisherAccountById'',
                 payload = AuthPayload a (password d)
                             ''d89443d2-327c-4a6f-89e5-496bbb0317db''\<rparr>])"
  by (auto simp: fetchAccountId_eq auth_eq calls_def verifyCall_def authCall_def
      dexcomAuthEndpoint_def dexcomLoginEndpoint_def dexcomApplicationId_def
      split: prod.splits option.splits)

text \<open>The amended C1 for the session step of a client whose account id is \<^verbatim>\<open>acct\<close>.\<close>

theorem login_endpoints_witness:
  "calls (auth (scripted [StringBody ''sess''])
            \<lparr>username = ''u'', password = ''p'', accountId = Some ''acct'', sessionId = None\<rparr> []) =
     [\<lparr>endPoint = ''General/LoginPublisherAccountById'',
       payload = AuthPayload ''acct'' ''p'' ''d89443d2-327c-4a6f-89e5-496bbb0317db''\<rparr>]"
  using login_endpoints [of "scripted [StringBody ''sess'']"
      "\<lparr>username = ''u'', password = ''p'', accountId = Some ''acct'', sessionId = None\<rparr>" "[]"]
  by simp

subsection \<open>A failed handshake\<close>

text \<open>
  Claim C2 says that a failed account-id request makes \<^verbatim>\<open>GetReadings\<close> return that
  failure, with no session call and no data call. What the source does for a client with
  no cached ids: the error of \<^verbatim>\<open>fetchAccountId\<close> is dropped, \<^verbatim>\<open>auth\<close> dereferences the nil
  account id and \<^verbatim>\<open>GetReadings\<close> panics. Only the account-id call was made, and no error
  is returned.
\<close>

theorem GetReadings_account_failure:
  assumes "accountId d = None" "sessionId d = None"
    and "net log \<lparr>endPoint = dexcomAuthEndpoint,
                   payload = VerifyPayload (username d) (password d) dexcomApplicationId\<rparr> =
         Failed e"
  shows "GetReadings net minutes numReadings d log =
           (Panic, d, log @ [\<lparr>endPoint = dexcomAuthEndpoint,
                              payload = VerifyPayload (username d) (password d)
                                          dexcomApplicationId\<rparr>])"
  using assms by (simp add: GetReadings_eq login_fresh verifyCall_def asString_def)

text \<open>C2 on a fresh client whose first request is refused.\<close>

theorem GetReadings_account_failure_witness:
  "GetReadings (scripted [Failed (TransportError ''connection refused'')]) 10 1 (New ''u'' ''p'') [] =
     (Panic, New ''u'' ''p'',
      [\<lparr>endPoint = ''General/AuthenticatePublisherAccount'',
        payload = VerifyPayload ''u'' ''p'' ''d89443d2-327c-4a6f-89e5-496bbb0317db''\<rparr>])"
  using GetReadings_account_failure [of "New ''u'' ''p''"
      "scripted [Failed (TransportError ''connection refused'')]" "[]"
      "TransportError ''connection refused''" 10 1]
  by (simp add: New_def scripted_def dexcomAuthEndpoint_def dexcomApplicationId_def)

text \<open>
  Claim C3 as stated says that step 1 runs again whenever the session id is unset, also
  when the account id is set. On a client with the account id set and the session id
  unset, \<^verbatim>\<open>GetReadings\<close> makes the session call and the data call, and no account-id call.
\<close>

theorem login_step1_counterexample:
  "sessionId \<lparr>username = ''u'', password = ''p'', accountId = Some ''acct'', sessionId = None\<rparr> = None \<and>
   calls (GetReadings (scripted [StringBody ''sess'', ReadingsBody []]) 10 1
            \<lparr>username = ''u'', password = ''p'', accountId = Some ''acct'', sessionId = None\<rparr> []) =
     [\<lparr>endPoint = ''General/LoginPublisherAccountById'',
       payload = AuthPayload ''acct'' ''p'' ''d89443d2-327c-4a6f-89e5-496bbb0317db''\<rparr>,
      \<lparr>endPoint = ''Publisher/ReadPublisherLatestGlucoseValues'',
       payload = GetReadingsPayload ''sess'' 10 1\<rparr>]"
  by (simp add: GetReadings_eq login_account_cached scripted_def asString_def asReadings_def
      calls_def authCall_def fetchCall_def dexcomLoginEndpoint_def dexcomGetLatestEndpoint_def
      dexcomApplicationId_def)

text \<open>After the login \<^verbatim>\<open>GetReadings\<close> makes no account-id call.\<close>

lemma GetReadings_calls_after_login:
  "\<exists>rest. calls (GetReadings net m n d log) = calls (login net d log) @ rest \<and>
          \<not> list_ex isVerify rest"
proof (cases "login net d log")
  case (fields r d1 log1)
  show ?thesis
  proof (cases r)
    case Panic
    with fields show ?thesis by (simp add: GetReadings_eq calls_def)
  next
    case (Returned u)
    show ?thesis
    proof (cases "sessionId d1")
      case None
      with fields Returned show ?thesis by (simp add: GetReadings_eq calls_def)
    next
      case (Some sid)
      with fields Returned show ?thesis
        by (simp add: GetReadings_eq calls_def split: prod.splits option.splits)
    qed
  qed
qed

text \<open>
  Claim C3, amended. When \<^verbatim>\<open>GetReadings\<close> is called with the session id unset, step 1 runs
  exactly when the account id is unset too: then the first call is the account-id call.
  When the account id is set, step 1 is skipped: the first call is the session call with
  the cached account id, and no account-id call follows.
\<close>

theorem login_step1:
  assumes "sessionId d = None"
  shows "(accountId d = None \<longrightarrow>
            (\<exists>rest. calls (GetReadings net minutes numReadings d log) =
               log @ \<lparr>endPoint = dexcomAuthEndpoint,
                       payload = VerifyPayload (username d) (password d) dexcomApplicationId\<rparr>
                     # rest)) \<and>
         (\<forall>a. accountId d = Some a \<longrightarrow>
            (\<exists>rest. calls (GetReadings net minutes numReadings d log) =
               log @ \<lparr>endPoint = dexcomLoginEndpoint,
                       payload = AuthPayload a (password d) dexcomApplicationId\<rparr>
                     # rest \<and>
               \<not> list_ex isVerify rest))"
proof (intro conjI impI allI)
  assume a: "accountId d = None"
  obtain rest where r: "calls (GetReadings net minutes numReadings d log) =
      calls (login net d log) @ rest"
    using GetReadings_calls_after_login by blast
  have "\<exists>r1. calls (login net d log) = log @ verifyCall d # r1"
    using assms a by (simp add: login_fresh calls_def split: prod.splits option.splits)
  then show "\<exists>rest. calls (GetReadings net minutes numReadings d log) =
               log @ \<lparr>endPoint = dexcomAuthEndpoint,
                       payload = VerifyPayload (username d) (password d) dexcomApplicationId\<rparr>
                     # rest"
    using r by (auto simp: verifyCall_def)
next
  fix a assume a: "accountId d = Some a"
  obtain rest where r: "calls (GetReadings net minutes numReadings d log) =
      calls (login net d log) @ rest" "\<not> list_ex isVerify rest"
    using GetReadings_calls_after_login by blast
  have "calls (login net d log) = log @ [authCall d a]"
    using assms a by (simp add: login_account_cached calls_def split: prod.splits option.splits)
  then show "\<exists>rest. calls (GetReadings net minutes numReadings d log) =
               log @ \<lparr>endPoint = dexcomLoginEndpoint,
                       payload = AuthPayload a (password d) dexcomApplicationId\<rparr>
                     # rest \<and>
               \<not> list_ex isVerify rest"
    using r by (auto simp: authCall_def)
qed

text \<open>The amended C3 on a client with the account id \<^verbatim>\<open>acct\<close> and no session id.\<close>

theorem login_step1_witness:
  "\<exists>rest. calls (GetReadings (scripted [StringBody ''sess'', ReadingsBody []]) 10 1
            \<lparr>username = ''u'', password = ''p'', accountId = Some ''acct'', sessionId = None\<rparr> []) =
     \<lparr>endPoint = dexcomLoginEndpoint,
       payload = AuthPayload ''acct'' ''p'' dexcomApplicationId\<rparr> # rest \<and>
     \<not> list_ex isVerify rest"
  using login_step1 [of
      "\<lparr>username = ''u'', password = ''p'', accountId = Some ''acct'', sessionId = None\<rparr>"
      "scripted [StringBody ''sess'', ReadingsBody []]" 10 1 "[]"]
  by simp

subsection \<open>Session reuse\<close>

text \<open>
  Claim C6. When all requests succeed, the first \<^verbatim>\<open>GetReadings\<close> on a fresh client makes
  exactly the account-id call, the session call and one data call, in this order; a second
  \<^verbatim>\<open>GetReadings\<close> on the same instance makes exactly one more call, a data call with the
  same session id.
\<close>

theorem GetReadings_call_counts:
  assumes login_ok: "\<And>log c. \<not> isFetch c \<Longrightarrow> snd (asString (net log c)) = None"
    and fetch_ok: "\<And>log c. isFetch c \<Longrightarrow> snd (asReadings (net log c)) = None"
  shows "\<exists>a s.
    calls (GetReadings net m n (New u p) log) =
      log @ [\<lparr>endPoint = dexcomAuthEndpoint, payload = VerifyPayload u p dexcomApplicationId\<rparr>,
             \<lparr>endPoint = dexcomLoginEndpoint, payload = AuthPayload a p dexcomApplicationId\<rparr>,
             \<lparr>endPoint = dexcomGetLatestEndpoint, payload = GetReadingsPayload s m n\<rparr>] \<and>
    calls (GetReadings net m' n' (client (GetReadings net m n (New u p) log))
             (calls (GetReadings net m n (New u p) log))) =
      calls (GetReadings net m n (New u p) log) @
        [\<lparr>endPoint = dexcomGetLatestEndpoint, payload = GetReadingsPayload s m' n'\<rparr>]"
proof -
  let ?d = "New u p"
  have ids: "sessionId ?d = None" "accountId ?d = None" by (simp_all add: New_def)
  obtain a where a: "asString (net log (verifyCall ?d)) = (a, None)"
    using login_ok [of "verifyCall ?d" log] by (cases "asString (net log (verifyCall ?d))") simp
  obtain s where s: "asString (net (log @ [verifyCall ?d]) (authCall ?d a)) = (s, None)"
    using login_ok [of "authCall ?d a" "log @ [verifyCall ?d]"]
    by (cases "asString (net (log @ [verifyCall ?d]) (authCall ?d a))") simp
  let ?d1 = "?d\<lparr>accountId := Some a, sessionId := Some s\<rparr>"
  let ?log1 = "log @ [verifyCall ?d, authCall ?d a]"
  have l: "login net ?d log = (Returned (), ?d1, ?log1)"
    using a s by (simp add: login_fresh [OF ids])
  obtain rs where rs: "asReadings (net ?log1 (fetchCall s m n)) = (rs, None)"
    using fetch_ok [of "fetchCall s m n" ?log1]
    by (cases "asReadings (net ?log1 (fetchCall s m n))") simp
  have g1: "GetReadings net m n ?d log = (convertAll rs [], ?d1, ?log1 @ [fetchCall s m n])"
    using l rs by (simp add: GetReadings_eq)
  let ?log2 = "?log1 @ [fetchCall s m n]"
  obtain rs' where rs': "asReadings (net ?log2 (fetchCall s m' n')) = (rs', None)"
    using fetch_ok [of "fetchCall s m' n'" ?log2]
    by (cases "asReadings (net ?log2 (fetchCall s m' n'))") simp
  have "sessionId ?d1 = Some s" by simp
  then have l2: "login net ?d1 ?log2 = (Returned (), ?d1, ?log2)" by (rule login_cached)
  have g2: "GetReadings net m' n' ?d1 ?log2 = (convertAll rs' [], ?d1, ?log2 @ [fetchCall s m' n'])"
    using l2 rs' by (simp add: GetReadings_eq)
  have c1: "calls (GetReadings net m n ?d log) = ?log2" and c2: "client (GetReadings net m n ?d log) = ?d1"
    unfolding g1 calls_def client_def by simp_all
  have c3: "calls (GetReadings net m' n' ?d1 ?log2) = ?log2 @ [fetchCall s m' n']"
    unfolding g2 calls_def by simp
  have "calls (GetReadings net m n (New u p) log) =
      log @ [\<lparr>endPoint = dexcomAuthEndpoint, payload = VerifyPayload u p dexcomApplicationId\<rparr>,
             \<lparr>endPoint = dexcomLoginEndpoint, payload = AuthPayload a p dexcomApplicationId\<rparr>,
             \<lparr>endPoint = dexcomGetLatestEndpoint, payload = GetReadingsPayload s m n\<rparr>]"
    unfolding c1 by (simp add: verifyCall_def authCall_def fetchCall_def New_def)
  moreover have "calls (GetReadings net m' n' (client (GetReadings net m n (New u p) log))
             (calls (GetReadings net m n (New u p) log))) =
      calls (GetReadings net m n (New u p) log) @
        [\<lparr>endPoint = dexcomGetLatestEndpoint, payload = GetReadingsPayload s m' n'\<rparr>]"
    unfolding c2 c1 c3 by (simp add: fetchCall_def)
  ultimately show ?thesis by blast
qed

text \<open>C6 on the transport \<open>alwaysOk\<close>.\<close>

theorem GetReadings_call_counts_witness:
  "\<exists>a s.
    calls (GetReadings alwaysOk 10 1 (New ''u'' ''p'') []) =
      [\<lparr>endPoint = dexcomAuthEndpoint, payload = VerifyPayload ''u'' ''p'' dexcomApplicationId\<rparr>,
       \<lparr>endPoint = dexcomLoginEndpoint, payload = AuthPayload a ''p'' dexcomApplicationId\<rparr>,
       \<lparr>endPoint = dexcomGetLatestEndpoint, payload = GetReadingsPayload s 10 1\<rparr>] \<and>
    calls (GetReadings alwaysOk 20 2 (client (GetReadings alwaysOk 10 1 (New ''u'' ''p'') []))
             (calls (GetReadings alwaysOk 10 1 (New ''u'' ''p'') []))) =
      calls (GetReadings alwaysOk 10 1 (New ''u'' ''p'') []) @
        [\<lparr>endPoint = dexcomGetLatestEndpoint, payload = GetReadingsPayload s 20 2\<rparr>]"
proof -
  have 1: "\<And>log c. \<not> isFetch c \<Longrightarrow> snd (asString (alwaysOk log c)) = None"
    by (simp add: isFetch_def alwaysOk_def asString_def split: payload.splits)
  have 2: "\<And>log c. isFetch c \<Longrightarrow> snd (asReadings (alwaysOk log c)) = None"
    by (simp add: isFetch_def alwaysOk_def asReadings_def split: payload.splits)
  from GetReadings_call_counts [of alwaysOk 10 1 "''u''" "''p''" "[]" 20 2, OF 1 2]
  show ?thesis by simp
qed

subsection \<open>The readings returned\<close>

text \<open>The loop appends one reading per raw record, in order, when every time decodes.\<close>

lemma convertAll_decodes:
  "\<forall>rv\<in>set rs. \<exists>t. convertTimestamp (RawReading_Time rv) = Returned (t, None) \<Longrightarrow>
   \<exists>gs. convertAll rs acc = Returned (acc @ gs, None) \<and> list_all2 decodes rs gs"
proof (induction rs arbitrary: acc)
  case Nil
  show ?case by simp
next
  case (Cons rv rs)
  from Cons.prems obtain t where t: "convertTimestamp (RawReading_Time rv) = Returned (t, None)"
    by auto
  let ?g = "\<lparr>GlucoseReading_Time = t, GlucoseReading_Value = RawReading_Value rv,
             GlucoseReading_Trend = RawReading_Trend rv\<rparr>"
  from Cons.prems have "\<forall>rv\<in>set rs. \<exists>t. convertTimestamp (RawReading_Time rv) = Returned (t, None)"
    by simp
  from Cons.IH [OF this, of "acc @ [?g]"] obtain gs where
    gs: "convertAll rs (acc @ [?g]) = Returned ((acc @ [?g]) @ gs, None)" "list_all2 decodes rs gs"
    by blast
  have "decodes rv ?g" using t by (simp add: decodes_def)
  with gs t have "convertAll (rv # rs) acc = Returned (acc @ ?g # gs, None) \<and>
      list_all2 decodes (rv # rs) (?g # gs)"
    by simp
  then show ?case by blast
qed

text \<open>The login makes no data call.\<close>

lemma login_calls:
  "\<exists>new. calls (login net d log) = log @ new \<and> \<not> list_ex isFetch new"
proof (cases "sessionId d")
  case (Some s)
  then show ?thesis by (simp add: login_cached calls_def)
next
  case None
  show ?thesis
  proof (cases "accountId d")
    case (Some a)
    with None show ?thesis
      by (simp add: login_account_cached calls_def split: prod.splits option.splits)
  next
    case acc: None
    with None show ?thesis
      by (simp add: login_fresh calls_def split: prod.splits option.splits)
  qed
qed

text \<open>
  Claim C7 as stated covers every successfully decoded vendor list. It fails on a decoded
  list with a record whose \<^verbatim>\<open>WT\<close> does not decode: the loop returns at that record with
  the parse error and no readings, also for the records before it.
\<close>

theorem GetReadings_readings_counterexample:
  "result (GetReadings
      (scripted [StringBody ''acct'', StringBody ''sess'',
                 ReadingsBody
                   [\<lparr>RawReading_Time = ''Date(1609459200000)'', RawReading_Trend = ''Flat'',
                     RawReading_Value = 120\<rparr>,
                    \<lparr>RawReading_Time = ''garbage'', RawReading_Trend = ''Flat'',
                     RawReading_Value = 121\<rparr>]])
      10 2 (New ''u'' ''p'') []) =
   Returned ([], Some (Errorf ''failed to parse timestamp: garbage''))"
proof -
  have ids: "sessionId (New ''u'' ''p'') = None" "accountId (New ''u'' ''p'') = None"
    by (simp_all add: New_def)
  have t1: "convertTimestamp ''Date(1609459200000)'' = Returned (utc 2021 1 1 0 0 0, None)"
    by (simp add: convertTimestamp_def index_def Atoi_def isDigit_def digitVal_def maxInt_def
        UnixMilli_def Unix_def go_quot_def go_rem_def utc_def days_from_civil_def)
  have t2: "convertTimestamp ''garbage'' =
      Returned (zeroTime, Some (Errorf ''failed to parse timestamp: garbage''))"
    by (simp add: convertTimestamp_def)
  show ?thesis
    by (simp add: GetReadings_eq login_fresh [OF ids] scripted_def asString_def asReadings_def
        result_def t1 t2)
qed

text \<open>
  Claim C7, amended. When the data call of \<^verbatim>\<open>GetReadings\<close> (the last call it makes) is
  answered with a decoded list of raw records whose \<^verbatim>\<open>WT\<close> all decode, \<^verbatim>\<open>GetReadings\<close>
  returns, with no error, one reading per raw record in the vendor's order, with value and
  trend copied and the time decoded from \<^verbatim>\<open>WT\<close>. An empty list gives the empty sequence
  and no error.
\<close>

theorem GetReadings_readings:
  assumes made: "calls (GetReadings net minutes numReadings d log) = log @ pre @ [c]"
    and fetch: "isFetch c"
    and reply: "net (log @ pre) c = ReadingsBody rs"
    and times: "\<forall>rv\<in>set rs. \<exists>t. convertTimestamp (RawReading_Time rv) = Returned (t, None)"
  shows "\<exists>gs. result (GetReadings net minutes numReadings d log) = Returned (gs, None) \<and>
              list_all2 decodes rs gs \<and> length gs = length rs \<and> (rs = [] \<longrightarrow> gs = [])"
proof -
  obtain r d1 log1 where l: "login net d log = (r, d1, log1)" by (cases "login net d log")
  obtain new where new: "log1 = log @ new" "\<not> list_ex isFetch new"
    using login_calls [of net d log] l by (auto simp: calls_def)
  have no: "new \<noteq> pre @ [c]" using new(2) fetch by auto
  show ?thesis
  proof (cases "\<exists>sid. r \<noteq> Panic \<and> sessionId d1 = Some sid")
    case False
    then have "calls (GetReadings net minutes numReadings d log) = log1"
      using l by (cases r; cases "sessionId d1") (simp_all add: GetReadings_eq calls_def)
    with made new(1) no show ?thesis by simp
  next
    case True
    then obtain sid u where sid: "r = Returned u" "sessionId d1 = Some sid" by (cases r) auto
    let ?c = "fetchCall sid minutes numReadings"
    have "calls (GetReadings net minutes numReadings d log) = log1 @ [?c]"
      using l sid by (simp add: GetReadings_eq calls_def split: prod.splits option.splits)
    with made new(1) have "new = pre" "c = ?c" by simp_all
    with reply new(1) have "asReadings (net log1 ?c) = (rs, None)" by (simp add: asReadings_def)
    then have res: "result (GetReadings net minutes numReadings d log) = convertAll rs []"
      using l sid by (simp add: GetReadings_eq result_def)
    from convertAll_decodes [OF times, of "[]"] obtain gs where
      gs: "convertAll rs [] = Returned (gs, None)" "list_all2 decodes rs gs" by auto
    from gs(2) have "length gs = length rs" by (simp add: list_all2_lengthD)
    with gs res show ?thesis by auto
  qed
qed

text \<open>
  The amended C7 on a fresh client that is sent two raw records, most recent first, and on
  a client with a cached session id that is sent the empty list.
\<close>

theorem GetReadings_readings_witness:
  "result (GetReadings
      (scripted [StringBody ''acct'', StringBody ''sess'',
                 ReadingsBody
                   [\<lparr>RawReading_Time = ''Date(1609459500000)'', RawReading_Trend = ''FortyFiveUp'',
                     RawReading_Value = 130\<rparr>,
                    \<lparr>RawReading_Time = ''Date(1609459200000)'', RawReading_Trend = ''Flat'',
                     RawReading_Value = 120\<rparr>]])
      10 2 (New ''u'' ''p'') []) =
   Returned
     ([\<lparr>GlucoseReading_Time = utc 2021 1 1 0 5 0, GlucoseReading_Value = 130,
        GlucoseReading_Trend = ''FortyFiveUp''\<rparr>,
       \<lparr>GlucoseReading_Time = utc 2021 1 1 0 0 0, GlucoseReading_Value = 120,
        GlucoseReading_Trend = ''Flat''\<rparr>], None) \<and>
   result (GetReadings (scripted [ReadingsBody []]) 10 1
             \<lparr>username = ''u'', password = ''p'', accountId = Some ''acct'',
              sessionId = Some ''sess''\<rparr> []) = Returned ([], None)"
proof -
  let ?r1 = "\<lparr>RawReading_Time = ''Date(1609459500000)'', RawReading_Trend = ''FortyFiveUp'',
              RawReading_Value = 130\<rparr>"
  let ?r2 = "\<lparr>RawReading_Time = ''Date(1609459200000)'', RawReading_Trend = ''Flat'',
              RawReading_Value = 120\<rparr>"
  let ?net = "scripted [StringBody ''acct'', StringBody ''sess'', ReadingsBody [?r1, ?r2]]"
  let ?pre = "[verifyCall (New ''u'' ''p''), authCall (New ''u'' ''p'') ''acct'']"
  let ?c = "fetchCall ''sess'' 10 2"
  have ids: "sessionId (New ''u'' ''p'') = None" "accountId (New ''u'' ''p'') = None"
    by (simp_all add: New_def)
  have 1: "calls (GetReadings ?net 10 2 (New ''u'' ''p'') []) = [] @ ?pre @ [?c]"
    by (simp add: GetReadings_eq login_fresh [OF ids] scripted_def asString_def asReadings_def
        calls_def)
  have 2: "isFetch ?c" by simp
  have 3: "?net ([] @ ?pre) ?c = ReadingsBody [?r1, ?r2]" by (simp add: scripted_def)
  have t1: "convertTimestamp ''Date(1609459500000)'' = Returned (utc 2021 1 1 0 5 0, None)"
    by (simp add: convertTimestamp_def index_def Atoi_def isDigit_def digitVal_def maxInt_def
        UnixMilli_def Unix_def go_quot_def go_rem_def utc_def days_from_civil_def)
  have t2: "convertTimestamp ''Date(1609459200000)'' = Returned (utc 2021 1 1 0 0 0, None)"
    by (simp add: convertTimestamp_def index_def Atoi_def isDigit_def digitVal_def maxInt_def
        UnixMilli_def Unix_def go_quot_def go_rem_def utc_def days_from_civil_def)
  have 4: "\<forall>rv\<in>set [?r1, ?r2]. \<exists>t. convertTimestamp (RawReading_Time rv) = Returned (t, None)"
    using t1 t2 by simp
  from GetReadings_readings [OF 1 2 3 4] obtain gs where
    gs: "result (GetReadings ?net 10 2 (New ''u'' ''p'') []) = Returned (gs, None)"
      "list_all2 decodes [?r1, ?r2] gs"
    by blast
  from gs(2) obtain a b where ab: "gs = [a, b]" "decodes ?r1 a" "decodes ?r2 b"
    by (auto simp: list_all2_Cons1)
  have a: "a = \<lparr>GlucoseReading_Time = utc 2021 1 1 0 5 0, GlucoseReading_Value = 130,
        GlucoseReading_Trend = ''FortyFiveUp''\<rparr>"
    using ab(2) t1 by (cases a) (simp add: decodes_def)
  have b: "b = \<lparr>GlucoseReading_Time = utc 2021 1 1 0 0 0, GlucoseReading_Value = 120,
        GlucoseReading_Trend = ''Flat''\<rparr>"
    using ab(3) t2 by (cases b) (simp add: decodes_def)
  let ?e = "\<lparr>username = ''u'', password = ''p'', accountId = Some ''acct'',
              sessionId = Some ''sess''\<rparr>"
  let ?c1 = "fetchCall ''sess'' 10 1"
  have 5: "calls (GetReadings (scripted [ReadingsBody []]) 10 1 ?e []) = [] @ [] @ [?c1]"
    by (simp add: GetReadings_eq login_cached scripted_def asReadings_def calls_def)
  have 6: "isFetch ?c1" by simp
  have 7: "scripted [ReadingsBody []] ([] @ []) ?c1 = ReadingsBody []" by (simp add: scripted_def)
  have 8: "\<forall>rv\<in>set ([] :: RawReading list).
             \<exists>t. convertTimestamp (RawReading_Time rv) = Returned (t, None)"
    by simp
  from GetReadings_readings [OF 5 6 7 8]
  have "result (GetReadings (scripted [ReadingsBody []]) 10 1 ?e []) = Returned ([], None)"
    by auto
  with gs(1) ab(1) a b show ?thesis by simp
qed

subsection \<open>The order of the handshake in every reachable state\<close>


lemma observe_payloads [simp]:
  "payload (verifyCall d) = VerifyPayload (username d) (password d) dexcomApplicationId"
  "payload (authCall d a) = AuthPayload a (password d) dexcomApplicationId"
  "payload (fetchCall s m n) = GetReadingsPayload s m n"
  by (simp_all add: verifyCall_def authCall_def fetchCall_def)








end
